theory Spec2Isabelle
  imports Main "HOL-Library.Multiset"
begin

section \<open>The signaling server (server.js)\<close>

text \<open>
  The server keeps two module-level containers: \<^verbatim>\<open>clients\<close>, a JavaScript \<^verbatim>\<open>Map\<close> from
  socket id to socket, and \<^verbatim>\<open>readyClients\<close>, a JavaScript \<^verbatim>\<open>Set\<close> of socket ids.
  Both iterate in insertion order, and \<^verbatim>\<open>Array.from(readyClients)[0]\<close> reads that order,
  so each container is modelled as the list of its keys in insertion order.  A socket is
  identified with its id.
\<close>

type_synonym sid = string

record server_state =
  clients :: "sid list"
  readyClients :: "sid list"

definition server_init :: server_state where
  "server_init = \<lparr>clients = [], readyClients = []\<rparr>"

text \<open>
  \<^verbatim>\<open>Set.prototype.add\<close> and \<^verbatim>\<open>Map.prototype.set\<close>: a key already present keeps its
  position, a new key goes to the end.  \<^verbatim>\<open>delete\<close> removes the key.
\<close>

definition js_add :: "sid \<Rightarrow> sid list \<Rightarrow> sid list" where
  "js_add k ks = (if k \<in> set ks then ks else ks @ [k])"

definition js_delete :: "sid \<Rightarrow> sid list \<Rightarrow> sid list" where
  "js_delete k ks = removeAll k ks"

text \<open>
  What the server sends.  The payload of an offer, an answer or a candidate is the value
  of the field \<^verbatim>\<open>data.offer\<close>, \<^verbatim>\<open>data.answer\<close>, \<^verbatim>\<open>data.candidate\<close> of the received
  object.  The server never looks inside it and socket.io carries it as JSON, so it is
  modelled as that text.
\<close>

type_synonym payload = string

datatype server_msg =
    UserCount nat
  | ReadyCount nat
  | StartCall sid
  | OfferMsg payload sid
  | AnswerMsg payload sid
  | IceCandidateMsg payload sid

datatype server_log =
    ClientConnected sid
  | ClientReady sid
  | TotalReadyClients nat
  | TwoClientsReady
  | LogInitiator sid
  | LogAnswerer sid
  | MoreThanTwoReady
  | OfferReceivedFrom sid
  | AnswerReceivedFrom sid
  | IceCandidateReceivedFrom sid
  | ClientDisconnected sid

text \<open>
  An effect of a handler is a \<^verbatim>\<open>console.log\<close> line or one socket.io emission, recorded
  with the list of sockets it is delivered to.
\<close>

datatype server_effect =
    Log server_log
  | Emit "sid list" server_msg

text \<open>
  \<^verbatim>\<open>io.emit\<close> delivers to every connected socket; \<^verbatim>\<open>socket.broadcast.emit\<close> delivers to
  every connected socket except the sender.  The sockets connected to the namespace are
  those held in \<^verbatim>\<open>clients\<close>: a socket is entered on \<^verbatim>\<open>connection\<close> and removed on
  \<^verbatim>\<open>disconnect\<close>.
\<close>

definition io_emit :: "server_state \<Rightarrow> server_msg \<Rightarrow> server_effect" where
  "io_emit s m = Emit (clients s) m"

definition broadcast_emit :: "server_state \<Rightarrow> sid \<Rightarrow> server_msg \<Rightarrow> server_effect" where
  "broadcast_emit s sender m = Emit (filter (\<lambda>c. c \<noteq> sender) (clients s)) m"

text \<open>\<^verbatim>\<open>io.on('connection', ...)\<close>, lines 47 to 52.\<close>

definition on_connection :: "server_state \<Rightarrow> sid \<Rightarrow> server_state \<times> server_effect list" where
  "on_connection s i =
     (let s1 = s\<lparr>clients := js_add i (clients s)\<rparr>
      in (s1, [Log (ClientConnected i), io_emit s1 (UserCount (length (clients s1)))]))"

text \<open>
  \<^verbatim>\<open>socket.on('ready', ...)\<close>, lines 55 to 76.  \<^verbatim>\<open>clientIds[0]\<close> and \<^verbatim>\<open>clientIds[1]\<close>
  are read only when the set has exactly two elements, so both are in range.
\<close>

definition on_ready :: "server_state \<Rightarrow> sid \<Rightarrow> server_state \<times> server_effect list" where
  "on_ready s i =
     (let logs = [Log (ClientReady i), Log (TotalReadyClients (length (readyClients s) + 1))];
          s1 = s\<lparr>readyClients := js_add i (readyClients s)\<rparr>;
          count = io_emit s1 (ReadyCount (length (readyClients s1)))
      in if length (readyClients s1) = 2 then
           (let clientIds = readyClients s1;
                initiatorId = clientIds ! 0
            in (s1, logs @ [count, Log TwoClientsReady, Log (LogInitiator initiatorId),
                            Log (LogAnswerer (clientIds ! 1)),
                            io_emit s1 (StartCall initiatorId)]))
         else if length (readyClients s1) > 2 then
           (s1, logs @ [count, Log MoreThanTwoReady])
         else (s1, logs @ [count]))"

text \<open>The three relay handlers, lines 79 to 103.  None of them touches the state.\<close>

definition on_offer :: "server_state \<Rightarrow> sid \<Rightarrow> payload \<Rightarrow> server_state \<times> server_effect list" where
  "on_offer s i offer = (s, [Log (OfferReceivedFrom i), broadcast_emit s i (OfferMsg offer i)])"

definition on_answer :: "server_state \<Rightarrow> sid \<Rightarrow> payload \<Rightarrow> server_state \<times> server_effect list" where
  "on_answer s i answer =
     (s, [Log (AnswerReceivedFrom i), broadcast_emit s i (AnswerMsg answer i)])"

definition on_ice_candidate ::
  "server_state \<Rightarrow> sid \<Rightarrow> payload \<Rightarrow> server_state \<times> server_effect list" where
  "on_ice_candidate s i candidate =
     (s, [Log (IceCandidateReceivedFrom i), broadcast_emit s i (IceCandidateMsg candidate i)])"

text \<open>\<^verbatim>\<open>socket.on('disconnect', ...)\<close>, lines 106 to 111.\<close>

definition on_disconnect :: "server_state \<Rightarrow> sid \<Rightarrow> server_state \<times> server_effect list" where
  "on_disconnect s i =
     (let s1 = s\<lparr>clients := js_delete i (clients s)\<rparr>;
          s2 = s1\<lparr>readyClients := js_delete i (readyClients s1)\<rparr>
      in (s2, [Log (ClientDisconnected i), io_emit s2 (UserCount (length (clients s2)))]))"

text \<open>
  The events the server reacts to, each tagged with the socket it comes from, and the
  single-threaded event loop: one handler runs to completion per event.
\<close>

datatype server_event =
    Connection sid
  | Ready sid
  | Offer sid payload
  | Answer sid payload
  | IceCandidate sid payload
  | Disconnect sid

fun handle :: "server_state \<Rightarrow> server_event \<Rightarrow> server_state \<times> server_effect list" where
  "handle s (Connection i) = on_connection s i"
| "handle s (Ready i) = on_ready s i"
| "handle s (Offer i p) = on_offer s i p"
| "handle s (Answer i p) = on_answer s i p"
| "handle s (IceCandidate i p) = on_ice_candidate s i p"
| "handle s (Disconnect i) = on_disconnect s i"

fun run :: "server_state \<Rightarrow> server_event list \<Rightarrow> server_state \<times> server_effect list" where
  "run s [] = (s, [])"
| "run s (e # es) =
     (let (s1, out1) = handle s e; (s2, out2) = run s1 es in (s2, out1 @ out2))"

text \<open>
  socket.io registers the per-socket handlers inside the \<^verbatim>\<open>connection\<close> callback and
  delivers nothing for a socket after its \<^verbatim>\<open>disconnect\<close>; a connecting socket gets an id
  that no connected socket has.  \<open>deliverable\<close> says which events can arrive in a state,
  \<open>valid_run\<close> which event sequences can.
\<close>

fun deliverable :: "server_state \<Rightarrow> server_event \<Rightarrow> bool" where
  "deliverable s (Connection i) = (i \<notin> set (clients s))"
| "deliverable s (Ready i) = (i \<in> set (clients s))"
| "deliverable s (Offer i p) = (i \<in> set (clients s))"
| "deliverable s (Answer i p) = (i \<in> set (clients s))"
| "deliverable s (IceCandidate i p) = (i \<in> set (clients s))"
| "deliverable s (Disconnect i) = (i \<in> set (clients s))"

fun valid_run :: "server_state \<Rightarrow> server_event list \<Rightarrow> bool" where
  "valid_run s [] = True"
| "valid_run s (e # es) = (deliverable s e \<and> valid_run (fst (handle s e)) es)"

text \<open>Projections of an effect trace: the emissions, and the initiators of the start-calls.\<close>

fun emitted :: "server_effect list \<Rightarrow> (sid list \<times> server_msg) list" where
  "emitted [] = []"
| "emitted (Log l # es) = emitted es"
| "emitted (Emit to m # es) = (to, m) # emitted es"

fun start_calls :: "server_effect list \<Rightarrow> sid list" where
  "start_calls [] = []"
| "start_calls (Emit to (StartCall i) # es) = i # start_calls es"
| "start_calls (e # es) = start_calls es"

text \<open>The keys of a \<^verbatim>\<open>Map\<close> or a \<^verbatim>\<open>Set\<close> are pairwise different.\<close>

definition wf_state :: "server_state \<Rightarrow> bool" where
  "wf_state s = (distinct (clients s) \<and> distinct (readyClients s))"

fun ready_senders :: "server_event list \<Rightarrow> sid list" where
  "ready_senders [] = []"
| "ready_senders (Ready i # es) = i # ready_senders es"
| "ready_senders (e # es) = ready_senders es"

section \<open>The browser client (index.html, as listed in the code walkthrough)\<close>

text \<open>
  The page keeps its state in module-level variables: \<^verbatim>\<open>localStream\<close>,
  \<^verbatim>\<open>peerConnection\<close>, \<^verbatim>\<open>isInitiator\<close> and \<^verbatim>\<open>iceCandidateQueue\<close>, next to the socket.
  \<^verbatim>\<open>RTCPeerConnection\<close> belongs to the browser, not to the page.  Of a connection the
  handlers read \<^verbatim>\<open>signalingState\<close> and \<^verbatim>\<open>remoteDescription\<close> only; the model keeps these,
  the local description, the tracks handed to \<^verbatim>\<open>addTrack\<close> and the candidates the
  connection has taken.
\<close>

datatype sdp_type = SdpOffer | SdpAnswer | SdpPranswer

record description =
  desc_type :: sdp_type
  sdp :: string

type_synonym candidate = string

datatype signaling_state =
    Stable
  | HaveLocalOffer
  | HaveRemoteOffer
  | HaveLocalPranswer
  | HaveRemotePranswer
  | Closed

datatype track_kind = Audio | Video

record peer_connection =
  signalingState :: signaling_state
  localDescription :: "description option"
  remoteDescription :: "description option"
  senders :: "track_kind list"
  remoteCandidates :: "candidate list"

definition new_peer_connection :: peer_connection where
  "new_peer_connection =
     \<lparr>signalingState = Stable, localDescription = None, remoteDescription = None,
      senders = [], remoteCandidates = []\<rparr>"

text \<open>
  What the page cannot decide is a parameter: whether the browser produces an offer or an
  answer, and whether it takes a description or a candidate or rejects the promise (the
  page's \<^verbatim>\<open>catch\<close> blocks).  A constructor that throws on a malformed argument
  (\<^verbatim>\<open>new RTCSessionDescription\<close>, \<^verbatim>\<open>new RTCIceCandidate\<close>) sits inside the same
  \<^verbatim>\<open>try\<close> and counts as a rejection of the call it feeds.
\<close>

record browser =
  createOffer :: "peer_connection \<Rightarrow> string option"
  createAnswer :: "peer_connection \<Rightarrow> string option"
  acceptsLocal :: "peer_connection \<Rightarrow> description \<Rightarrow> bool"
  acceptsRemote :: "peer_connection \<Rightarrow> description \<Rightarrow> bool"
  acceptsCandidate :: "peer_connection \<Rightarrow> candidate \<Rightarrow> bool"

text \<open>
  A description that is taken moves the signalling state as its type says (the
  \<^verbatim>\<open>rollback\<close> type, which the page never produces, is left out).  \<open>None\<close> is the
  rejected promise; the connection is then as before.
\<close>

fun state_after_local :: "sdp_type \<Rightarrow> signaling_state" where
  "state_after_local SdpOffer = HaveLocalOffer"
| "state_after_local SdpAnswer = Stable"
| "state_after_local SdpPranswer = HaveLocalPranswer"

fun state_after_remote :: "sdp_type \<Rightarrow> signaling_state" where
  "state_after_remote SdpOffer = HaveRemoteOffer"
| "state_after_remote SdpAnswer = Stable"
| "state_after_remote SdpPranswer = HaveRemotePranswer"

definition setLocalDescription ::
  "browser \<Rightarrow> peer_connection \<Rightarrow> description \<Rightarrow> peer_connection option" where
  "setLocalDescription b pc d =
     (if acceptsLocal b pc d
      then Some (pc\<lparr>localDescription := Some d,
                     signalingState := state_after_local (desc_type d)\<rparr>)
      else None)"

definition setRemoteDescription ::
  "browser \<Rightarrow> peer_connection \<Rightarrow> description \<Rightarrow> peer_connection option" where
  "setRemoteDescription b pc d =
     (if acceptsRemote b pc d
      then Some (pc\<lparr>remoteDescription := Some d,
                     signalingState := state_after_remote (desc_type d)\<rparr>)
      else None)"

definition addIceCandidate ::
  "browser \<Rightarrow> peer_connection \<Rightarrow> candidate \<Rightarrow> peer_connection option" where
  "addIceCandidate b pc c =
     (if acceptsCandidate b pc c
      then Some (pc\<lparr>remoteCandidates := remoteCandidates pc @ [c]\<rparr>)
      else None)"

record client_state =
  socket_id :: sid
  localStream :: "track_kind list option"
  peerConnection :: "peer_connection option"
  isInitiator :: bool
  iceCandidateQueue :: "candidate list"

definition client_init :: "sid \<Rightarrow> client_state" where
  "client_init i =
     \<lparr>socket_id = i, localStream = None, peerConnection = None, isInitiator = False,
      iceCandidateQueue = []\<rparr>"

text \<open>
  The effects of a handler, in program order: a \<^verbatim>\<open>logMessage\<close> line, a
  \<^verbatim>\<open>socket.emit\<close>, a call on the peer connection (recorded whether the browser takes it
  or rejects it), or a \<^verbatim>\<open>TypeError\<close> that no \<^verbatim>\<open>try\<close> encloses.
\<close>

datatype client_log =
    BothPeersReady
  | WaitingForOffer
  | AddedLocalTrack track_kind
  | SentOffer
  | ErrorCreatingOffer
  | ReceivedOffer
  | IgnoringOffer
  | SentAnswer
  | ErrorHandlingOffer
  | ReceivedAnswer
  | NoPeerConnection
  | IgnoringAnswer signaling_state
  | ConnectionEstablished
  | ErrorHandlingAnswer
  | QueuedNoPeerConnection
  | QueuedWaitingForRemote
  | AddedIceCandidate
  | ErrorAddingIceCandidate
  | RequestingCamera
  | CameraStarted
  | WaitingForPeer

datatype client_msg =
    EmitReady
  | EmitOffer description
  | EmitAnswer description

datatype pc_call =
    AddTrack track_kind
  | CreateDataChannel
  | CreateOffer
  | CreateAnswer
  | SetLocalDescription description
  | SetRemoteDescription description
  | AddIceCandidate candidate

datatype client_effect =
    LogMessage client_log
  | SocketEmit client_msg
  | PcCall pc_call
  | UncaughtTypeError

text \<open>
  Every handler is an \<^verbatim>\<open>async\<close> function.  The model runs a handler to its end in one
  step, each awaited call answered on the spot by the \<open>browser\<close>.  The tests a handler
  makes (is there a connection, its signalling state, its remote description) come
  before its first \<^verbatim>\<open>await\<close>, and each \<^verbatim>\<open>shift\<close> is followed at once by the call that
  uses the shifted candidate, so the order of the calls made for queued candidates is the
  one computed here.
\<close>

text \<open>
  \<^verbatim>\<open>localStream.getTracks().forEach(track => peerConnection.addTrack(...))\<close> with its
  log line per track.
\<close>

definition add_local_tracks ::
  "peer_connection \<Rightarrow> track_kind list \<Rightarrow> peer_connection \<times> client_effect list" where
  "add_local_tracks pc tracks =
     (pc\<lparr>senders := senders pc @ tracks\<rparr>,
      concat (map (\<lambda>k. [PcCall (AddTrack k), LogMessage (AddedLocalTrack k)]) tracks))"

text \<open>
  The loop \<^verbatim>\<open>while (iceCandidateQueue.length > 0) { const candidate =
  iceCandidateQueue.shift(); await peerConnection.addIceCandidate(...) }\<close> of
  \<^verbatim>\<open>handleOffer\<close> and \<^verbatim>\<open>handleAnswer\<close>.  It returns the connection, what is left in the
  queue, the calls made, and whether it ran to the end; a rejected call leaves the loop
  for the enclosing \<^verbatim>\<open>catch\<close>, the rejected candidate already shifted out.
\<close>

fun drain_queue ::
  "browser \<Rightarrow> peer_connection \<Rightarrow> candidate list \<Rightarrow>
     peer_connection \<times> candidate list \<times> client_effect list \<times> bool" where
  "drain_queue b pc [] = (pc, [], [], True)"
| "drain_queue b pc (c # q) =
     (case addIceCandidate b pc c of
        None \<Rightarrow> (pc, q, [PcCall (AddIceCandidate c)], False)
      | Some pc1 \<Rightarrow>
          (let (pc2, q2, calls, ok) = drain_queue b pc1 q
           in (pc2, q2, PcCall (AddIceCandidate c) # calls, ok)))"

text \<open>\<^verbatim>\<open>createPeerConnection\<close>, called from the start-call handler only.\<close>

definition createPeerConnection :: "client_state \<Rightarrow> client_state \<times> client_effect list" where
  "createPeerConnection st =
     (case localStream st of
        None \<Rightarrow> (st\<lparr>peerConnection := Some new_peer_connection\<rparr>, [UncaughtTypeError])
      | Some tracks \<Rightarrow>
          (let (pc, added) = add_local_tracks new_peer_connection tracks
           in (st\<lparr>peerConnection := Some pc\<rparr>,
               added @ (if isInitiator st then [PcCall CreateDataChannel] else []))))"

text \<open>\<^verbatim>\<open>createAndSendOffer\<close>.\<close>

definition createAndSendOffer ::
  "browser \<Rightarrow> client_state \<Rightarrow> client_state \<times> client_effect list" where
  "createAndSendOffer b st =
     (case peerConnection st of
        None \<Rightarrow> (st, [LogMessage ErrorCreatingOffer])
      | Some pc \<Rightarrow>
          (case createOffer b pc of
             None \<Rightarrow> (st, [PcCall CreateOffer, LogMessage ErrorCreatingOffer])
           | Some text \<Rightarrow>
               (let offer = \<lparr>desc_type = SdpOffer, sdp = text\<rparr>
                in case setLocalDescription b pc offer of
                     None \<Rightarrow>
                       (st, [PcCall CreateOffer, PcCall (SetLocalDescription offer),
                             LogMessage ErrorCreatingOffer])
                   | Some pc1 \<Rightarrow>
                       (st\<lparr>peerConnection := Some pc1\<rparr>,
                        [PcCall CreateOffer, PcCall (SetLocalDescription offer),
                         SocketEmit (EmitOffer offer), LogMessage SentOffer]))))"

text \<open>
  \<^verbatim>\<open>socket.on('start-call', ...)\<close>.  The argument is \<^verbatim>\<open>data.initiator\<close>, \<open>None\<close> when
  the event carries no data.
\<close>

definition client_on_start_call ::
  "browser \<Rightarrow> client_state \<Rightarrow> sid option \<Rightarrow> client_state \<times> client_effect list" where
  "client_on_start_call b st initiator =
     (if peerConnection st = None \<and> localStream st \<noteq> None then
        (if initiator = Some (socket_id st) then
           (let st1 = st\<lparr>isInitiator := True\<rparr>;
                (st2, created) = createPeerConnection st1;
                (st3, offered) = createAndSendOffer b st2
            in (st3, LogMessage BothPeersReady # created @ offered))
         else (st, [LogMessage BothPeersReady, LogMessage WaitingForOffer]))
      else (st, []))"

text \<open>
  \<^verbatim>\<open>handleOffer\<close>.  The connection is made first when there is none; reading the tracks
  of a \<^verbatim>\<open>localStream\<close> that is still \<^verbatim>\<open>undefined\<close> throws outside the \<^verbatim>\<open>try\<close>, after
  \<^verbatim>\<open>peerConnection\<close> has been assigned.  \<open>answer_offer\<close> is the \<^verbatim>\<open>try\<close> block.
\<close>

definition answer_offer ::
  "browser \<Rightarrow> peer_connection \<Rightarrow> candidate list \<Rightarrow> description \<Rightarrow>
     peer_connection \<times> candidate list \<times> client_effect list" where
  "answer_offer b pc queue offer =
     (case setRemoteDescription b pc offer of
        None \<Rightarrow> (pc, queue, [PcCall (SetRemoteDescription offer), LogMessage ErrorHandlingOffer])
      | Some pc1 \<Rightarrow>
          (let (pc2, q2, calls, ok) = drain_queue b pc1 queue;
               sofar = PcCall (SetRemoteDescription offer) # calls
           in if \<not> ok then (pc2, q2, sofar @ [LogMessage ErrorHandlingOffer])
              else
                (case createAnswer b pc2 of
                   None \<Rightarrow> (pc2, q2, sofar @ [PcCall CreateAnswer, LogMessage ErrorHandlingOffer])
                 | Some text \<Rightarrow>
                     (let answer = \<lparr>desc_type = SdpAnswer, sdp = text\<rparr>
                      in case setLocalDescription b pc2 answer of
                           None \<Rightarrow>
                             (pc2, q2,
                              sofar @ [PcCall CreateAnswer, PcCall (SetLocalDescription answer),
                                       LogMessage ErrorHandlingOffer])
                         | Some pc3 \<Rightarrow>
                             (pc3, q2,
                              sofar @ [PcCall CreateAnswer, PcCall (SetLocalDescription answer),
                                       SocketEmit (EmitAnswer answer), LogMessage SentAnswer])))))"

definition handleOffer ::
  "browser \<Rightarrow> client_state \<Rightarrow> description \<Rightarrow> client_state \<times> client_effect list" where
  "handleOffer b st offer =
     (case peerConnection st of
        Some pc \<Rightarrow>
          (let (pc1, q, effs) = answer_offer b pc (iceCandidateQueue st) offer
           in (st\<lparr>peerConnection := Some pc1, iceCandidateQueue := q\<rparr>, effs))
      | None \<Rightarrow>
          (case localStream st of
             None \<Rightarrow> (st\<lparr>peerConnection := Some new_peer_connection\<rparr>, [UncaughtTypeError])
           | Some tracks \<Rightarrow>
               (let (pc0, added) = add_local_tracks new_peer_connection tracks;
                    (pc1, q, effs) = answer_offer b pc0 (iceCandidateQueue st) offer
                in (st\<lparr>peerConnection := Some pc1, iceCandidateQueue := q\<rparr>, added @ effs))))"

text \<open>\<^verbatim>\<open>socket.on('offer', ...)\<close>.\<close>

definition client_on_offer ::
  "browser \<Rightarrow> client_state \<Rightarrow> description \<Rightarrow> client_state \<times> client_effect list" where
  "client_on_offer b st offer =
     (if peerConnection st \<noteq> None \<and> isInitiator st then
        (st, [LogMessage ReceivedOffer, LogMessage IgnoringOffer])
      else
        (let (st1, effs) = handleOffer b (st\<lparr>isInitiator := False\<rparr>) offer
         in (st1, LogMessage ReceivedOffer # effs)))"

text \<open>\<^verbatim>\<open>handleAnswer\<close> and \<^verbatim>\<open>socket.on('answer', ...)\<close>.\<close>

definition handleAnswer ::
  "browser \<Rightarrow> client_state \<Rightarrow> description \<Rightarrow> client_state \<times> client_effect list" where
  "handleAnswer b st answer =
     (case peerConnection st of
        None \<Rightarrow> (st, [LogMessage NoPeerConnection])
      | Some pc \<Rightarrow>
          (if signalingState pc \<noteq> HaveLocalOffer then
             (st, [LogMessage (IgnoringAnswer (signalingState pc))])
           else
             (case setRemoteDescription b pc answer of
                None \<Rightarrow>
                  (st, [PcCall (SetRemoteDescription answer), LogMessage ErrorHandlingAnswer])
              | Some pc1 \<Rightarrow>
                  (let (pc2, q2, calls, ok) = drain_queue b pc1 (iceCandidateQueue st)
                   in (st\<lparr>peerConnection := Some pc2, iceCandidateQueue := q2\<rparr>,
                       PcCall (SetRemoteDescription answer) # calls @
                         [LogMessage (if ok then ConnectionEstablished
                                      else ErrorHandlingAnswer)])))))"

definition client_on_answer ::
  "browser \<Rightarrow> client_state \<Rightarrow> description \<Rightarrow> client_state \<times> client_effect list" where
  "client_on_answer b st answer =
     (let (st1, effs) = handleAnswer b st answer in (st1, LogMessage ReceivedAnswer # effs))"

text \<open>
  \<^verbatim>\<open>handleIceCandidate\<close> and \<^verbatim>\<open>socket.on('ice-candidate', ...)\<close>.  A remote description
  the browser holds always has a type, so the test
  \<^verbatim>\<open>peerConnection.remoteDescription && peerConnection.remoteDescription.type\<close> is
  \<open>remoteDescription pc \<noteq> None\<close>.
\<close>

definition handleIceCandidate ::
  "browser \<Rightarrow> client_state \<Rightarrow> candidate \<Rightarrow> client_state \<times> client_effect list" where
  "handleIceCandidate b st c =
     (case peerConnection st of
        None \<Rightarrow>
          (st\<lparr>iceCandidateQueue := iceCandidateQueue st @ [c]\<rparr>,
           [LogMessage QueuedNoPeerConnection])
      | Some pc \<Rightarrow>
          (if remoteDescription pc \<noteq> None then
             (case addIceCandidate b pc c of
                Some pc1 \<Rightarrow>
                  (st\<lparr>peerConnection := Some pc1\<rparr>,
                   [PcCall (AddIceCandidate c), LogMessage AddedIceCandidate])
              | None \<Rightarrow> (st, [PcCall (AddIceCandidate c), LogMessage ErrorAddingIceCandidate]))
           else
             (st\<lparr>iceCandidateQueue := iceCandidateQueue st @ [c]\<rparr>,
              [LogMessage QueuedWaitingForRemote])))"

definition client_on_ice_candidate ::
  "browser \<Rightarrow> client_state \<Rightarrow> candidate \<Rightarrow> client_state \<times> client_effect list" where
  "client_on_ice_candidate b st c = handleIceCandidate b st c"

text \<open>
  \<^verbatim>\<open>startBtn.onclick\<close>, on the path where the camera is granted: the stream is stored
  and \<^verbatim>\<open>ready\<close> is sent.  (The walkthrough does not list the \<^verbatim>\<open>catch\<close> branch.)
\<close>

definition startBtn_onclick ::
  "client_state \<Rightarrow> track_kind list \<Rightarrow> client_state \<times> client_effect list" where
  "startBtn_onclick st tracks =
     (st\<lparr>localStream := Some tracks\<rparr>,
      [LogMessage RequestingCamera, LogMessage CameraStarted, SocketEmit EmitReady,
       LogMessage WaitingForPeer])"

text \<open>
  What can happen to a page, and its runs.  The callbacks the page hangs on the
  connection (\<^verbatim>\<open>ontrack\<close>, \<^verbatim>\<open>onicecandidate\<close>, \<^verbatim>\<open>onconnectionstatechange\<close>, the data
  channel) write none of the variables above and are left out.
\<close>

datatype client_event =
    ClickStart "track_kind list"
  | RecvStartCall "sid option"
  | RecvOffer description
  | RecvAnswer description
  | RecvIceCandidate candidate

fun client_handle ::
  "browser \<Rightarrow> client_state \<Rightarrow> client_event \<Rightarrow> client_state \<times> client_effect list" where
  "client_handle b st (ClickStart tracks) = startBtn_onclick st tracks"
| "client_handle b st (RecvStartCall i) = client_on_start_call b st i"
| "client_handle b st (RecvOffer d) = client_on_offer b st d"
| "client_handle b st (RecvAnswer d) = client_on_answer b st d"
| "client_handle b st (RecvIceCandidate c) = client_on_ice_candidate b st c"

fun client_run ::
  "browser \<Rightarrow> client_state \<Rightarrow> client_event list \<Rightarrow> client_state \<times> client_effect list" where
  "client_run b st [] = (st, [])"
| "client_run b st (e # es) =
     (let (st1, out1) = client_handle b st e; (st2, out2) = client_run b st1 es
      in (st2, out1 @ out2))"


fun answers_sent :: "client_effect list \<Rightarrow> description list" where
  "answers_sent [] = []"
| "answers_sent (SocketEmit (EmitAnswer d) # es) = d # answers_sent es"
| "answers_sent (e # es) = answers_sent es"



text \<open>
  The one fact about reachable pages that the answer guard relies on: a connection whose
  signalling state is \<^verbatim>\<open>have-local-offer\<close> belongs to a page that made itself initiator.
\<close>

definition offerer_is_initiator :: "client_state \<Rightarrow> bool" where
  "offerer_is_initiator st =
     (case peerConnection st of
        None \<Rightarrow> True
      | Some pc \<Rightarrow> signalingState pc \<noteq> HaveLocalOffer \<or> isInitiator st)"

text \<open>A browser that takes every call, and one that rejects a single candidate.\<close>

definition willing_browser :: browser where
  "willing_browser =
     \<lparr>createOffer = (\<lambda>pc. Some ''offer-sdp''), createAnswer = (\<lambda>pc. Some ''answer-sdp''),
      acceptsLocal = (\<lambda>pc d. True), acceptsRemote = (\<lambda>pc d. True),
      acceptsCandidate = (\<lambda>pc c. True)\<rparr>"


text \<open>
  Two pages of the spec's scenario after both have started their cameras and the
  start-call naming \<open>a1\<close> has arrived: \<open>a1\<close> has sent its offer, \<open>b1\<close> waits for it.
\<close>

definition initiator_pc :: peer_connection where
  "initiator_pc =
     \<lparr>signalingState = HaveLocalOffer,
      localDescription = Some \<lparr>desc_type = SdpOffer, sdp = ''offer-sdp''\<rparr>,
      remoteDescription = None, senders = [Audio, Video], remoteCandidates = []\<rparr>"

definition initiator_waiting :: client_state where
  "initiator_waiting =
     \<lparr>socket_id = ''a1'', localStream = Some [Audio, Video],
      peerConnection = Some initiator_pc, isInitiator = True, iceCandidateQueue = []\<rparr>"

definition answerer_waiting :: client_state where
  "answerer_waiting =
     \<lparr>socket_id = ''b1'', localStream = Some [Audio, Video], peerConnection = None,
      isInitiator = False, iceCandidateQueue = []\<rparr>"

section \<open>Properties of the server\<close>

subsection \<open>Containers and runs\<close>

lemma distinct_js_add: "distinct ks \<Longrightarrow> distinct (js_add k ks)"
  by (simp add: js_add_def)

lemma distinct_js_delete: "distinct ks \<Longrightarrow> distinct (js_delete k ks)"
  by (simp add: js_delete_def distinct_removeAll)

lemma set_js_add: "set (js_add k ks) = insert k (set ks)"
  by (auto simp: js_add_def)

lemma set_js_delete: "set (js_delete k ks) = set ks - {k}"
  by (simp add: js_delete_def)

lemma length_js_delete:
  "distinct ks \<Longrightarrow> length (js_delete k ks) = length ks - (if k \<in> set ks then 1 else 0)"
  by (simp add: js_delete_def distinct_remove1_removeAll [symmetric] length_remove1)

lemma fst_on_ready: "fst (on_ready s i) = s\<lparr>readyClients := js_add i (readyClients s)\<rparr>"
  by (simp add: on_ready_def Let_def)

lemma fst_on_connection: "fst (on_connection s i) = s\<lparr>clients := js_add i (clients s)\<rparr>"
  by (simp add: on_connection_def Let_def)

lemma fst_on_disconnect:
  "fst (on_disconnect s i) =
     s\<lparr>clients := js_delete i (clients s), readyClients := js_delete i (readyClients s)\<rparr>"
  by (simp add: on_disconnect_def Let_def)

lemma fst_relay:
  "fst (on_offer s i p) = s" "fst (on_answer s i p) = s" "fst (on_ice_candidate s i p) = s"
  by (simp_all add: on_offer_def on_answer_def on_ice_candidate_def)

lemmas fst_handlers = fst_on_ready fst_on_connection fst_on_disconnect fst_relay

lemma wf_handle: "wf_state s \<Longrightarrow> wf_state (fst (handle s e))"
  by (cases e) (simp_all add: wf_state_def fst_handlers distinct_js_add distinct_js_delete)

lemma fst_run_Cons: "fst (run s (e # es)) = fst (run (fst (handle s e)) es)"
  by (simp add: split_beta)

lemma snd_run_Cons: "snd (run s (e # es)) = snd (handle s e) @ snd (run (fst (handle s e)) es)"
  by (simp add: split_beta)

lemma run_single: "run s [e] = handle s e"
  by (simp add: split_beta)

lemma fst_run_append: "fst (run s (xs @ ys)) = fst (run (fst (run s xs)) ys)"
  by (induction xs arbitrary: s) (simp_all add: split_beta)

lemma snd_run_append:
  "snd (run s (xs @ ys)) = snd (run s xs) @ snd (run (fst (run s xs)) ys)"
  by (induction xs arbitrary: s) (simp_all add: split_beta)

lemma wf_run: "wf_state s \<Longrightarrow> wf_state (fst (run s es))"
proof (induction es arbitrary: s)
  case Nil
  then show ?case by simp
next
  case (Cons e es)
  then show ?case by (simp only: fst_run_Cons wf_handle)
qed

lemma distinct_reached:
  "distinct (clients (fst (run server_init es))) \<and>
   distinct (readyClients (fst (run server_init es)))"
  using wf_run [of server_init es] by (simp add: wf_state_def server_init_def)

lemma start_calls_append: "start_calls (xs @ ys) = start_calls xs @ start_calls ys"
  by (induction xs rule: start_calls.induct) simp_all

subsection \<open>Election of the initiator\<close>

lemma no_ready_keeps_empty:
  "ready_senders es = [] \<Longrightarrow> readyClients s = [] \<Longrightarrow>
     readyClients (fst (run s es)) = [] \<and> start_calls (snd (run s es)) = []"
proof (induction es arbitrary: s)
  case Nil
  then show ?case by simp
next
  case (Cons e es)
  have step: "readyClients (fst (handle s e)) = [] \<and> start_calls (snd (handle s e)) = []"
    using Cons.prems
    by (cases e)
      (simp_all add: on_connection_def on_offer_def on_answer_def on_ice_candidate_def
        on_disconnect_def io_emit_def broadcast_emit_def js_delete_def Let_def)
  moreover have "ready_senders es = []"
    using Cons.prems(1) by (cases e) simp_all
  ultimately show ?case
    using Cons.IH [of "fst (handle s e)"]
    by (simp only: fst_run_Cons snd_run_Cons start_calls_append) simp
qed

lemma single_ready_stays:
  "set (ready_senders es) \<subseteq> {a} \<Longrightarrow> Disconnect a \<notin> set es \<Longrightarrow> readyClients s = [a] \<Longrightarrow>
     readyClients (fst (run s es)) = [a] \<and> start_calls (snd (run s es)) = []"
proof (induction es arbitrary: s)
  case Nil
  then show ?case by simp
next
  case (Cons e es)
  have step: "readyClients (fst (handle s e)) = [a] \<and> start_calls (snd (handle s e)) = []"
    using Cons.prems
    by (cases e)
      (auto simp: on_connection_def on_offer_def on_answer_def on_ice_candidate_def
        on_disconnect_def on_ready_def io_emit_def broadcast_emit_def js_delete_def
        js_add_def Let_def)
  moreover have "set (ready_senders es) \<subseteq> {a}" "Disconnect a \<notin> set es"
    using Cons.prems(1,2) by (cases e; simp)+
  ultimately show ?case
    using Cons.IH [of "fst (handle s e)"]
    by (simp only: fst_run_Cons snd_run_Cons start_calls_append) simp
qed

lemma on_ready_second:
  "readyClients s = [a] \<Longrightarrow> a \<noteq> b \<Longrightarrow>
     on_ready s b =
       (s\<lparr>readyClients := [a, b]\<rparr>,
        [Log (ClientReady b), Log (TotalReadyClients 2),
         Emit (clients s) (ReadyCount 2), Log TwoClientsReady, Log (LogInitiator a),
         Log (LogAnswerer b), Emit (clients s) (StartCall a)])"
  by (simp add: on_ready_def js_add_def io_emit_def Let_def)

text \<open>
  Claim C1.  In a run from the empty server where \<open>a\<close> is the first socket to signal
  ready (no ready signal in \<open>pre\<close>), only \<open>a\<close> signals ready again before \<open>b\<close> does and
  \<open>a\<close> is still connected, the ready signal of \<open>b\<close> brings the ready set to the two
  elements \<open>a, b\<close>, no start-call has gone out before it, and its handler emits, besides
  the ready count, exactly one start-call: to every socket held in \<open>clients\<close>, naming
  \<open>a\<close> as initiator.  The order in which the sockets connected plays no part.
\<close>

theorem first_ready_is_initiator:
  assumes "ready_senders pre = []"
    and "set (ready_senders mid) \<subseteq> {a}"
    and "Disconnect a \<notin> set mid"
    and "a \<noteq> b"
  shows "start_calls (snd (run server_init (pre @ Ready a # mid))) = [] \<and>
         emitted (snd (handle (fst (run server_init (pre @ Ready a # mid))) (Ready b))) =
           [(clients (fst (run server_init (pre @ Ready a # mid))), ReadyCount 2),
            (clients (fst (run server_init (pre @ Ready a # mid))), StartCall a)] \<and>
         start_calls (snd (run server_init (pre @ Ready a # mid @ [Ready b]))) = [a] \<and>
         readyClients (fst (run server_init (pre @ Ready a # mid @ [Ready b]))) = [a, b]"
proof -
  define s0 where "s0 = fst (run server_init pre)"
  define s1 where "s1 = fst (handle s0 (Ready a))"
  define s2 where "s2 = fst (run s1 mid)"
  have pre: "readyClients s0 = []" "start_calls (snd (run server_init pre)) = []"
    using no_ready_keeps_empty [OF assms(1), of server_init]
    by (simp_all add: s0_def server_init_def)
  have first: "readyClients s1 = [a]" "start_calls (snd (handle s0 (Ready a))) = []"
    using pre(1) by (simp_all add: s1_def on_ready_def js_add_def io_emit_def Let_def)
  have mid: "readyClients s2 = [a]" "start_calls (snd (run s1 mid)) = []"
    using single_ready_stays [OF assms(2,3) first(1)] by (simp_all add: s2_def)
  define X where "X = pre @ Ready a # mid"
  have fX: "fst (run server_init X) = s2"
    unfolding X_def fst_run_append fst_run_Cons s0_def s1_def s2_def by (rule refl)
  have bX: "start_calls (snd (run server_init X)) = []"
    using pre(2) first(2) mid(2)
    by (simp only: X_def snd_run_append snd_run_Cons start_calls_append s0_def [symmetric]
        s1_def [symmetric]) simp
  have last: "on_ready s2 b =
       (s2\<lparr>readyClients := [a, b]\<rparr>,
        [Log (ClientReady b), Log (TotalReadyClients 2),
         Emit (clients s2) (ReadyCount 2), Log TwoClientsReady, Log (LogInitiator a),
         Log (LogAnswerer b), Emit (clients s2) (StartCall a)])"
    using on_ready_second [OF mid(1) assms(4)] .
  have f: "fst (run server_init (X @ [Ready b])) = fst (handle s2 (Ready b))"
    by (simp only: fst_run_append fX run_single)
  have g: "snd (run server_init (X @ [Ready b])) =
      snd (run server_init X) @ snd (handle s2 (Ready b))"
    by (simp only: snd_run_append fX run_single)
  have whole: "pre @ Ready a # mid @ [Ready b] = X @ [Ready b]"
    by (simp add: X_def)
  show ?thesis
    unfolding whole X_def [symmetric] f g start_calls_append bX fX handle.simps last
    by simp
qed

text \<open>
  The theorem at a run where \<open>b1\<close> connects before \<open>a1\<close> and \<open>a1\<close> is ready first.
\<close>

theorem first_ready_is_initiator_witness:
  "ready_senders [Connection ''b1'', Connection ''a1''] = [] \<and>
   set (ready_senders [Offer ''b1'' ''X'', Ready ''a1'']) \<subseteq> {''a1''} \<and>
   Disconnect ''a1'' \<notin> set [Offer ''b1'' ''X'', Ready ''a1''] \<and>
   ''a1'' \<noteq> ''b1'' \<and>
   start_calls (snd (run server_init
     ([Connection ''b1'', Connection ''a1''] @ Ready ''a1'' # [Offer ''b1'' ''X'', Ready ''a1'']
        @ [Ready ''b1'']))) = [''a1'']"
proof -
  have h1: "ready_senders [Connection ''b1'', Connection ''a1''] = []" by simp
  have h2: "set (ready_senders [Offer ''b1'' ''X'', Ready ''a1'']) \<subseteq> {''a1''}" by simp
  have h3: "Disconnect ''a1'' \<notin> set [Offer ''b1'' ''X'', Ready ''a1'']" by simp
  have h4: "''a1'' \<noteq> ''b1''" by simp
  from first_ready_is_initiator [OF h1 h2 h3 h4] h1 h2 h3 h4 show ?thesis by blast
qed

subsection \<open>The relay\<close>

text \<open>
  Claim C4.  The handler of an offer, an answer or a candidate from socket \<open>p\<close> leaves the
  server state as it is (nothing is stored) and makes, in the same handler step, one
  emission carrying the payload as received together with \<open>p\<close> as sender.  It is
  addressed to the connected sockets other than \<open>p\<close>, each of them once in every state
  the server can reach.
\<close>

theorem relay_forwards_to_others:
  assumes "s = fst (run server_init es)"
  shows "handle s (Offer p d) =
           (s, [Log (OfferReceivedFrom p),
                Emit (filter (\<lambda>c. c \<noteq> p) (clients s)) (OfferMsg d p)]) \<and>
         handle s (Answer p d) =
           (s, [Log (AnswerReceivedFrom p),
                Emit (filter (\<lambda>c. c \<noteq> p) (clients s)) (AnswerMsg d p)]) \<and>
         handle s (IceCandidate p d) =
           (s, [Log (IceCandidateReceivedFrom p),
                Emit (filter (\<lambda>c. c \<noteq> p) (clients s)) (IceCandidateMsg d p)]) \<and>
         set (filter (\<lambda>c. c \<noteq> p) (clients s)) = set (clients s) - {p} \<and>
         distinct (filter (\<lambda>c. c \<noteq> p) (clients s))"
  using distinct_reached [of es] assms
  by (auto simp: on_offer_def on_answer_def on_ice_candidate_def broadcast_emit_def)

theorem relay_forwards_to_others_witness:
  "handle (fst (run server_init [Connection ''a1'', Connection ''b1'', Connection ''c1'']))
       (Offer ''a1'' ''X'') =
     (fst (run server_init [Connection ''a1'', Connection ''b1'', Connection ''c1'']),
      [Log (OfferReceivedFrom ''a1''),
       Emit (filter (\<lambda>c. c \<noteq> ''a1'')
               (clients (fst (run server_init
                  [Connection ''a1'', Connection ''b1'', Connection ''c1'']))))
            (OfferMsg ''X'' ''a1'')]) \<and>
   filter (\<lambda>c. c \<noteq> ''a1'')
     (clients (fst (run server_init [Connection ''a1'', Connection ''b1'', Connection ''c1'']))) =
     [''b1'', ''c1'']"
proof -
  have r: "filter (\<lambda>c. c \<noteq> ''a1'')
     (clients (fst (run server_init [Connection ''a1'', Connection ''b1'', Connection ''c1'']))) =
     [''b1'', ''c1'']"
    by code_simp
  from relay_forwards_to_others [OF refl,
      of "[Connection ''a1'', Connection ''b1'', Connection ''c1'']" "''a1''" "''X''"] r
  show ?thesis by blast
qed

subsection \<open>Repeated and late ready signals\<close>

text \<open>
  Claim C5, as amended.  A ready signal from a socket that is already in the ready set
  leaves the server state as it is.  The handler still broadcasts the ready count, and
  when the set has two elements it broadcasts the start-call again, with the same
  initiator.
\<close>

theorem duplicate_ready_keeps_set:
  assumes "i \<in> set (readyClients s)"
  shows "fst (on_ready s i) = s \<and>
         emitted (snd (on_ready s i)) =
           (if length (readyClients s) = 2
            then [(clients s, ReadyCount 2), (clients s, StartCall (readyClients s ! 0))]
            else [(clients s, ReadyCount (length (readyClients s)))])"
  using assms by (simp add: on_ready_def js_add_def io_emit_def Let_def)

theorem duplicate_ready_keeps_set_witness:
  "''b1'' \<in> set (readyClients \<lparr>clients = [''a1'', ''b1''], readyClients = [''a1'', ''b1'']\<rparr>) \<and>
   fst (on_ready \<lparr>clients = [''a1'', ''b1''], readyClients = [''a1'', ''b1'']\<rparr> ''b1'') =
     \<lparr>clients = [''a1'', ''b1''], readyClients = [''a1'', ''b1'']\<rparr> \<and>
   emitted (snd (on_ready \<lparr>clients = [''a1'', ''b1''], readyClients = [''a1'', ''b1'']\<rparr> ''b1'')) =
     [([''a1'', ''b1''], ReadyCount 2), ([''a1'', ''b1''], StartCall ''a1'')]"
  using duplicate_ready_keeps_set
    [of "''b1''" "\<lparr>clients = [''a1'', ''b1''], readyClients = [''a1'', ''b1'']\<rparr>"]
  by simp

text \<open>
  Against claim C5 as stated: after \<open>a1\<close> and \<open>b1\<close> are ready one start-call has gone
  out; a second ready signal from \<open>a1\<close> sends a second one.
\<close>

theorem duplicate_ready_second_start_call_counterexample:
  "readyClients (fst (run server_init
     [Connection ''a1'', Connection ''b1'', Ready ''a1'', Ready ''b1''])) = [''a1'', ''b1''] \<and>
   start_calls (snd (run server_init
     [Connection ''a1'', Connection ''b1'', Ready ''a1'', Ready ''b1''])) = [''a1''] \<and>
   start_calls (snd (run server_init
     [Connection ''a1'', Connection ''b1'', Ready ''a1'', Ready ''b1'', Ready ''a1''])) =
     [''a1'', ''a1'']"
  by code_simp

text \<open>
  Claim C8, as amended.  When a socket signals ready while the ready set already holds
  two or more other sockets, the handler adds it to the set and broadcasts the ready
  count only: that ready signal emits no start-call and designates nobody.
\<close>

theorem third_ready_no_start_call:
  assumes "2 \<le> length (readyClients s)" and "i \<notin> set (readyClients s)"
  shows "fst (on_ready s i) = s\<lparr>readyClients := readyClients s @ [i]\<rparr> \<and>
         emitted (snd (on_ready s i)) =
           [(clients s, ReadyCount (length (readyClients s) + 1))] \<and>
         start_calls (snd (on_ready s i)) = []"
  using assms by (simp add: on_ready_def js_add_def io_emit_def Let_def)

theorem third_ready_no_start_call_witness:
  "2 \<le> length (readyClients
      \<lparr>clients = [''a1'', ''b1'', ''c1''], readyClients = [''a1'', ''b1'']\<rparr>) \<and>
   ''c1'' \<notin> set (readyClients
      \<lparr>clients = [''a1'', ''b1'', ''c1''], readyClients = [''a1'', ''b1'']\<rparr>) \<and>
   emitted (snd (on_ready
      \<lparr>clients = [''a1'', ''b1'', ''c1''], readyClients = [''a1'', ''b1'']\<rparr> ''c1'')) =
     [([''a1'', ''b1'', ''c1''], ReadyCount 3)] \<and>
   start_calls (snd (on_ready
      \<lparr>clients = [''a1'', ''b1'', ''c1''], readyClients = [''a1'', ''b1'']\<rparr> ''c1'')) = []"
  using third_ready_no_start_call
    [of "\<lparr>clients = [''a1'', ''b1'', ''c1''], readyClients = [''a1'', ''b1'']\<rparr>" "''c1''"]
  by simp

text \<open>
  Against claim C8 as stated: \<open>c1\<close> signals ready third and stays in the ready set; once
  \<open>a1\<close> and \<open>b1\<close> have disconnected, the ready signal of a fourth socket finds two ready
  sockets and the start-call names \<open>c1\<close> as initiator.
\<close>

theorem third_ready_later_initiator_counterexample:
  "valid_run server_init
     [Connection ''a1'', Connection ''b1'', Connection ''c1'', Ready ''a1'', Ready ''b1'',
      Ready ''c1'', Disconnect ''a1'', Disconnect ''b1'', Connection ''d1'', Ready ''d1''] \<and>
   start_calls (snd (run server_init
     [Connection ''a1'', Connection ''b1'', Connection ''c1'', Ready ''a1'', Ready ''b1'',
      Ready ''c1'', Disconnect ''a1'', Disconnect ''b1'', Connection ''d1'', Ready ''d1''])) =
     [''a1'', ''c1'']"
  by code_simp

subsection \<open>Disconnection\<close>

lemma stays_out_step:
  "deliverable t e \<Longrightarrow> e \<noteq> Connection i \<Longrightarrow> i \<notin> set (clients t) \<Longrightarrow>
     i \<notin> set (readyClients t) \<Longrightarrow>
     i \<notin> set (clients (fst (handle t e))) \<and> i \<notin> set (readyClients (fst (handle t e)))"
  by (cases e) (auto simp: fst_handlers set_js_add set_js_delete)

lemma stays_out_run:
  "valid_run t es \<Longrightarrow> Connection i \<notin> set es \<Longrightarrow> i \<notin> set (clients t) \<Longrightarrow>
     i \<notin> set (readyClients t) \<Longrightarrow>
     i \<notin> set (clients (fst (run t es))) \<and> i \<notin> set (readyClients (fst (run t es)))"
proof (induction es arbitrary: t)
  case Nil
  then show ?case by simp
next
  case (Cons e es)
  from Cons.prems have d: "deliverable t e" and v: "valid_run (fst (handle t e)) es"
    and n: "e \<noteq> Connection i" "Connection i \<notin> set es"
    by auto
  from stays_out_step [OF d n(1) Cons.prems(3,4)]
  have "i \<notin> set (clients (fst (handle t e)))" "i \<notin> set (readyClients (fst (handle t e)))"
    by simp_all
  from Cons.IH [OF v n(2) this] show ?case unfolding fst_run_Cons .
qed


text \<open>
  Claim C6, as amended.  In every state the server can reach, the disconnect handler of
  socket \<open>i\<close> takes \<open>i\<close> out of \<open>clients\<close> and out of \<open>readyClients\<close> and nothing else,
  each size going down by one exactly when \<open>i\<close> was a member; running it a second time
  changes nothing more, and \<open>i\<close> stays out of both containers in whatever follows, as long
  as the id does not connect again.  The handler broadcasts the user count of the reduced
  \<open>clients\<close> and nothing else: no ready count goes out at the disconnection.  The reduced
  ready set shows in the ready count of the next ready signal (of another socket \<open>j\<close>).
\<close>

theorem disconnect_removes_from_both:
  assumes "s = fst (run server_init es)"
  shows "set (clients (fst (on_disconnect s i))) = set (clients s) - {i} \<and>
         set (readyClients (fst (on_disconnect s i))) = set (readyClients s) - {i} \<and>
         length (clients (fst (on_disconnect s i))) =
           length (clients s) - (if i \<in> set (clients s) then 1 else 0) \<and>
         length (readyClients (fst (on_disconnect s i))) =
           length (readyClients s) - (if i \<in> set (readyClients s) then 1 else 0) \<and>
         fst (on_disconnect (fst (on_disconnect s i)) i) = fst (on_disconnect s i) \<and>
         emitted (snd (on_disconnect s i)) =
           [(clients (fst (on_disconnect s i)),
             UserCount (length (clients s) - (if i \<in> set (clients s) then 1 else 0)))] \<and>
         (\<forall>to n. (to, ReadyCount n) \<notin> set (emitted (snd (on_disconnect s i)))) \<and>
         (\<forall>j. j \<noteq> i \<longrightarrow>
            hd (emitted (snd (on_ready (fst (on_disconnect s i)) j))) =
              (clients (fst (on_disconnect s i)),
               ReadyCount (length (readyClients s) - (if i \<in> set (readyClients s) then 1 else 0)
                           + (if j \<in> set (readyClients s) then 0 else 1)))) \<and>
         (\<forall>later. valid_run (fst (on_disconnect s i)) later \<and> Connection i \<notin> set later \<longrightarrow>
            i \<notin> set (clients (fst (run (fst (on_disconnect s i)) later))) \<and>
            i \<notin> set (readyClients (fst (run (fst (on_disconnect s i)) later))))"
proof -
  let ?s' = "fst (on_disconnect s i)"
  have d: "distinct (clients s)" "distinct (readyClients s)"
    using distinct_reached [of es] assms by simp_all
  have c: "clients ?s' = js_delete i (clients s)"
    and r: "readyClients ?s' = js_delete i (readyClients s)"
    by (simp_all add: fst_on_disconnect)
  have idem: "fst (on_disconnect ?s' i) = ?s'"
    by (simp add: fst_on_disconnect js_delete_def)
  have lc: "length (clients ?s') = length (clients s) - (if i \<in> set (clients s) then 1 else 0)"
    unfolding c by (rule length_js_delete [OF d(1)])
  have lr: "length (readyClients ?s') =
      length (readyClients s) - (if i \<in> set (readyClients s) then 1 else 0)"
    unfolding r by (rule length_js_delete [OF d(2)])
  have em: "emitted (snd (on_disconnect s i)) =
      [(clients ?s', UserCount (length (clients ?s')))]"
    by (simp add: on_disconnect_def io_emit_def Let_def)
  have nxt: "hd (emitted (snd (on_ready ?s' j))) =
      (clients ?s', ReadyCount (length (readyClients ?s')
         + (if j \<in> set (readyClients s) then 0 else 1)))" if "j \<noteq> i" for j
    using that by (simp add: on_ready_def io_emit_def Let_def r js_add_def set_js_delete)
  have out: "i \<notin> set (clients ?s')" "i \<notin> set (readyClients ?s')"
    by (simp_all add: c r set_js_delete)
  have later: "i \<notin> set (clients (fst (run ?s' later))) \<and>
      i \<notin> set (readyClients (fst (run ?s' later)))"
    if "valid_run ?s' later \<and> Connection i \<notin> set later" for later
    using stays_out_run [OF _ _ out] that by blast
  have sc: "set (clients ?s') = set (clients s) - {i}"
    and sr: "set (readyClients ?s') = set (readyClients s) - {i}"
    by (simp_all add: c r set_js_delete)
  have em': "emitted (snd (on_disconnect s i)) =
      [(clients ?s', UserCount (length (clients s) - (if i \<in> set (clients s) then 1 else 0)))]"
    unfolding em lc by (rule refl)
  have norc: "\<forall>to n. (to, ReadyCount n) \<notin> set (emitted (snd (on_disconnect s i)))"
    unfolding em by simp
  have nxt': "\<forall>j. j \<noteq> i \<longrightarrow>
      hd (emitted (snd (on_ready ?s' j))) =
        (clients ?s',
         ReadyCount (length (readyClients s) - (if i \<in> set (readyClients s) then 1 else 0)
                     + (if j \<in> set (readyClients s) then 0 else 1)))"
    using nxt unfolding lr by blast
  have later': "\<forall>later. valid_run ?s' later \<and> Connection i \<notin> set later \<longrightarrow>
      i \<notin> set (clients (fst (run ?s' later))) \<and>
      i \<notin> set (readyClients (fst (run ?s' later)))"
    using later by blast
  show ?thesis
    using sc sr lc lr idem em' norc nxt' later' by (intro conjI)
qed

text \<open>
  The theorem with \<open>a1\<close>, \<open>b1\<close> and \<open>c1\<close> connected and \<open>a1\<close>, \<open>b1\<close> ready: \<open>a1\<close>
  disconnects, the user count 2 goes to \<open>b1\<close> and \<open>c1\<close> and nothing else does; the ready
  signal of \<open>c1\<close>, which can be delivered, then announces two ready sockets.
\<close>

theorem disconnect_removes_from_both_witness:
  "valid_run server_init
     [Connection ''a1'', Connection ''b1'', Connection ''c1'', Ready ''a1'', Ready ''b1'',
      Disconnect ''a1'', Ready ''c1''] \<and>
   emitted (snd (on_disconnect
      (fst (run server_init
         [Connection ''a1'', Connection ''b1'', Connection ''c1'', Ready ''a1'', Ready ''b1'']))
      ''a1'')) = [([''b1'', ''c1''], UserCount 2)] \<and>
   hd (emitted (snd (on_ready
      (fst (on_disconnect
        (fst (run server_init
           [Connection ''a1'', Connection ''b1'', Connection ''c1'', Ready ''a1'', Ready ''b1'']))
        ''a1'')) ''c1''))) = ([''b1'', ''c1''], ReadyCount 2)"
proof -
  have v: "valid_run server_init
     [Connection ''a1'', Connection ''b1'', Connection ''c1'', Ready ''a1'', Ready ''b1'',
      Disconnect ''a1'', Ready ''c1'']"
    by code_simp
  have s: "fst (run server_init
         [Connection ''a1'', Connection ''b1'', Connection ''c1'', Ready ''a1'', Ready ''b1''])
      = \<lparr>clients = [''a1'', ''b1'', ''c1''], readyClients = [''a1'', ''b1'']\<rparr>"
    by code_simp
  have t: "emitted (snd (on_disconnect
      (fst (run server_init
         [Connection ''a1'', Connection ''b1'', Connection ''c1'', Ready ''a1'', Ready ''b1'']))
      ''a1'')) = [([''b1'', ''c1''], UserCount 2)] \<and>
   hd (emitted (snd (on_ready
      (fst (on_disconnect
        (fst (run server_init
           [Connection ''a1'', Connection ''b1'', Connection ''c1'', Ready ''a1'', Ready ''b1'']))
        ''a1'')) ''c1''))) = ([''b1'', ''c1''], ReadyCount 2)"
    using disconnect_removes_from_both [OF refl,
        of "[Connection ''a1'', Connection ''b1'', Connection ''c1'', Ready ''a1'', Ready ''b1'']"
           "''a1''"]
    unfolding s by (simp add: fst_on_disconnect js_delete_def)
  from v t show ?thesis by (rule conjI)
qed

text \<open>
  Against claim C6 as stated: \<open>a1\<close> and \<open>b1\<close> connect and signal ready, then \<open>a1\<close>
  disconnects.  The disconnection is followed by the user count 1 only.  The last ready
  count any participant has been sent is 2, while the ready set now holds \<open>b1\<close> alone.
\<close>

theorem disconnect_no_ready_count_counterexample:
  "valid_run server_init
     [Connection ''a1'', Connection ''b1'', Ready ''a1'', Ready ''b1'', Disconnect ''a1''] \<and>
   emitted (snd (run server_init
     [Connection ''a1'', Connection ''b1'', Ready ''a1'', Ready ''b1'', Disconnect ''a1''])) =
     [([''a1''], UserCount 1), ([''a1'', ''b1''], UserCount 2),
      ([''a1'', ''b1''], ReadyCount 1), ([''a1'', ''b1''], ReadyCount 2),
      ([''a1'', ''b1''], StartCall ''a1''), ([''b1''], UserCount 1)] \<and>
   readyClients (fst (run server_init
     [Connection ''a1'', Connection ''b1'', Ready ''a1'', Ready ''b1'', Disconnect ''a1''])) =
     [''b1'']"
  by code_simp

subsection \<open>The ready set stays inside the connected set\<close>

lemma ready_subset_step:
  "deliverable s e \<Longrightarrow> set (readyClients s) \<subseteq> set (clients s) \<Longrightarrow>
     set (readyClients (fst (handle s e))) \<subseteq> set (clients (fst (handle s e)))"
  by (cases e) (auto simp: fst_handlers set_js_add set_js_delete)

lemma ready_subset_run:
  "valid_run s es \<Longrightarrow> set (readyClients s) \<subseteq> set (clients s) \<Longrightarrow>
     set (readyClients (fst (run s es))) \<subseteq> set (clients (fst (run s es)))"
proof (induction es arbitrary: s)
  case Nil
  then show ?case by simp
next
  case (Cons e es)
  from Cons.prems have d: "deliverable s e" and v: "valid_run (fst (handle s e)) es"
    by simp_all
  from ready_subset_step [OF d Cons.prems(2)] Cons.IH [OF v]
  show ?case by (simp only: fst_run_Cons)
qed

text \<open>
  Claim C10.  After every sequence of events that socket.io can deliver to the server,
  started from the empty state, every id in \<open>readyClients\<close> is an id in \<open>clients\<close>.
\<close>

theorem ready_subset_connected:
  "valid_run server_init es \<Longrightarrow>
     set (readyClients (fst (run server_init es))) \<subseteq> set (clients (fst (run server_init es)))"
  by (rule ready_subset_run) (simp_all add: server_init_def)

theorem ready_subset_connected_witness:
  "valid_run server_init
     [Connection ''a1'', Connection ''b1'', Ready ''b1'', Ready ''a1'', Offer ''b1'' ''X'',
      Disconnect ''b1''] \<and>
   set (readyClients (fst (run server_init
     [Connection ''a1'', Connection ''b1'', Ready ''b1'', Ready ''a1'', Offer ''b1'' ''X'',
      Disconnect ''b1'']))) \<subseteq>
   set (clients (fst (run server_init
     [Connection ''a1'', Connection ''b1'', Ready ''b1'', Ready ''a1'', Offer ''b1'' ''X'',
      Disconnect ''b1''])))"
proof -
  have v: "valid_run server_init
     [Connection ''a1'', Connection ''b1'', Ready ''b1'', Ready ''a1'', Offer ''b1'' ''X'',
      Disconnect ''b1'']"
    by code_simp
  from v ready_subset_connected [OF v] show ?thesis by (rule conjI)
qed

section \<open>Properties of the client\<close>

subsection \<open>Runs and the drain loop\<close>

lemma fst_client_run_Cons:
  "fst (client_run b st (e # es)) = fst (client_run b (fst (client_handle b st e)) es)"
  by (simp add: split_beta)






lemma drain_queue_signaling:
  "signalingState (fst (drain_queue b pc q)) = signalingState pc"
  by (induction q arbitrary: pc)
     (auto simp: addIceCandidate_def split_beta split: option.splits if_splits)



lemma answer_offer_signaling:
  "signalingState pc \<noteq> HaveLocalOffer \<Longrightarrow>
     signalingState (fst (answer_offer b pc q d)) \<noteq> HaveLocalOffer"
proof -
  assume a: "signalingState pc \<noteq> HaveLocalOffer"
  have r: "state_after_remote t \<noteq> HaveLocalOffer" for t by (cases t) simp_all
  have d: "signalingState (fst (drain_queue b p q)) = signalingState p" for p
    by (rule drain_queue_signaling)
  show ?thesis
    using a r d
    by (auto simp: answer_offer_def setRemoteDescription_def setLocalDescription_def
        split_beta Let_def split: option.splits if_splits)
qed









lemma initiator_waiting_reached:
  "fst (client_run willing_browser (client_init ''a1'')
         [ClickStart [Audio, Video], RecvStartCall (Some ''a1'')]) = initiator_waiting"
  by code_simp

lemma answerer_waiting_reached:
  "fst (client_run willing_browser (client_init ''b1'')
         [ClickStart [Audio, Video], RecvStartCall (Some ''a1'')]) = answerer_waiting"
  by code_simp

subsection \<open>No candidate is lost\<close>






subsection \<open>Buffered candidates\<close>





subsection \<open>Guards on answers and offers\<close>

lemma offerer_init: "offerer_is_initiator (client_init i)"
  by (simp add: offerer_is_initiator_def client_init_def)

lemma offerer_start_call:
  "offerer_is_initiator st \<Longrightarrow> offerer_is_initiator (fst (client_on_start_call b st i))"
  by (auto simp: offerer_is_initiator_def client_on_start_call_def createPeerConnection_def
      createAndSendOffer_def add_local_tracks_def split_beta Let_def
      split: option.splits if_splits)

lemma offerer_offer:
  assumes "offerer_is_initiator st"
  shows "offerer_is_initiator (fst (client_on_offer b st d))"
proof (cases "peerConnection st \<noteq> None \<and> isInitiator st")
  case True
  then show ?thesis using assms by (simp add: client_on_offer_def)
next
  case False
  have new: "signalingState (fst (add_local_tracks new_peer_connection ts)) \<noteq> HaveLocalOffer"
    for ts by (simp add: add_local_tracks_def new_peer_connection_def)
  have old: "signalingState pc \<noteq> HaveLocalOffer" if "peerConnection st = Some pc" for pc
    using that False assms by (auto simp: offerer_is_initiator_def)
  show ?thesis
    using False answer_offer_signaling [OF new] answer_offer_signaling [OF old]
    by (auto simp: client_on_offer_def handleOffer_def offerer_is_initiator_def split_beta
        Let_def new_peer_connection_def split: option.splits)
qed

lemma offerer_answer:
  "offerer_is_initiator st \<Longrightarrow> offerer_is_initiator (fst (client_on_answer b st d))"
  by (auto simp: offerer_is_initiator_def client_on_answer_def handleAnswer_def split_beta
      Let_def setRemoteDescription_def drain_queue_signaling
      split: option.splits if_splits)

lemma offerer_candidate:
  "offerer_is_initiator st \<Longrightarrow> offerer_is_initiator (fst (client_on_ice_candidate b st c))"
  by (auto simp: offerer_is_initiator_def client_on_ice_candidate_def handleIceCandidate_def
      addIceCandidate_def split: option.splits if_splits)

lemma offerer_handle:
  "offerer_is_initiator st \<Longrightarrow> offerer_is_initiator (fst (client_handle b st e))"
proof (cases e)
  case (ClickStart ts)
  assume "offerer_is_initiator st"
  with ClickStart show ?thesis
    by (simp add: offerer_is_initiator_def startBtn_onclick_def split: option.splits)
qed (simp_all add: offerer_start_call offerer_offer offerer_answer offerer_candidate)

lemma offerer_run:
  "offerer_is_initiator st \<Longrightarrow> offerer_is_initiator (fst (client_run b st es))"
proof (induction es arbitrary: st)
  case Nil
  then show ?case by simp
next
  case (Cons e es)
  then show ?case by (simp only: fst_client_run_Cons offerer_handle)
qed

text \<open>
  Claim C3.  Let \<open>st\<close> be a state the page reaches from its initial state.  If the page is
  not the initiator, or its connection is not in \<^verbatim>\<open>have-local-offer\<close>, an answer that
  arrives is discarded: the state is returned untouched (no remote description is set,
  the queue is not drained, no call reaches the connection) and the only effects are the
  two log lines, the second naming the reason.
\<close>

theorem answer_discarded_without_mutation:
  assumes "st = fst (client_run b (client_init i) es)"
    and "\<not> isInitiator st \<or>
         (\<forall>pc. peerConnection st = Some pc \<longrightarrow> signalingState pc \<noteq> HaveLocalOffer)"
  shows "client_on_answer b st answer =
           (st, [LogMessage ReceivedAnswer,
                 LogMessage (case peerConnection st of
                               None \<Rightarrow> NoPeerConnection
                             | Some pc \<Rightarrow> IgnoringAnswer (signalingState pc))])"
proof -
  have "offerer_is_initiator st"
    unfolding assms(1) by (rule offerer_run [OF offerer_init])
  with assms(2) show ?thesis
    by (auto simp: offerer_is_initiator_def client_on_answer_def handleAnswer_def
        split: option.splits)
qed

text \<open>The theorem at the answerer \<open>b1\<close>, after it has answered the offer of \<open>a1\<close>.\<close>

theorem answer_discarded_without_mutation_witness:
  "\<not> isInitiator (fst (client_run willing_browser (client_init ''b1'')
       [ClickStart [Audio, Video], RecvStartCall (Some ''a1''),
        RecvOffer \<lparr>desc_type = SdpOffer, sdp = ''X''\<rparr>])) \<and>
   client_on_answer willing_browser
     (fst (client_run willing_browser (client_init ''b1'')
       [ClickStart [Audio, Video], RecvStartCall (Some ''a1''),
        RecvOffer \<lparr>desc_type = SdpOffer, sdp = ''X''\<rparr>]))
     \<lparr>desc_type = SdpAnswer, sdp = ''Y''\<rparr> =
   (fst (client_run willing_browser (client_init ''b1'')
       [ClickStart [Audio, Video], RecvStartCall (Some ''a1''),
        RecvOffer \<lparr>desc_type = SdpOffer, sdp = ''X''\<rparr>]),
    [LogMessage ReceivedAnswer,
     LogMessage (case peerConnection (fst (client_run willing_browser (client_init ''b1'')
       [ClickStart [Audio, Video], RecvStartCall (Some ''a1''),
        RecvOffer \<lparr>desc_type = SdpOffer, sdp = ''X''\<rparr>])) of
          None \<Rightarrow> NoPeerConnection
        | Some pc \<Rightarrow> IgnoringAnswer (signalingState pc))])"
proof -
  have h: "\<not> isInitiator (fst (client_run willing_browser (client_init ''b1'')
       [ClickStart [Audio, Video], RecvStartCall (Some ''a1''),
        RecvOffer \<lparr>desc_type = SdpOffer, sdp = ''X''\<rparr>]))"
    by code_simp
  from h answer_discarded_without_mutation [OF refl disjI1 [OF h]]
  show ?thesis by (rule conjI)
qed

text \<open>
  Claim C7, as amended.  An incoming offer is ignored when a peer connection already
  exists and the page is the initiator: the state is returned untouched and the only
  effects are two log lines, so no answer is produced.  That is the only guard.  When a
  connection exists and the page is not the initiator, or when there is no connection
  but a local stream, the offer is taken up whatever the phase of the protocol: the
  initiator flag is cleared and \<^verbatim>\<open>setRemoteDescription\<close> is called with the offer.
\<close>

theorem offer_ignored_by_initiator:
  "(peerConnection st \<noteq> None \<and> isInitiator st \<longrightarrow>
      client_on_offer b st offer = (st, [LogMessage ReceivedOffer, LogMessage IgnoringOffer])) \<and>
   ((peerConnection st \<noteq> None \<and> \<not> isInitiator st) \<or>
    (peerConnection st = None \<and> localStream st \<noteq> None) \<longrightarrow>
      PcCall (SetRemoteDescription offer) \<in> set (snd (client_on_offer b st offer)) \<and>
      \<not> isInitiator (fst (client_on_offer b st offer)))"
  by (auto simp: client_on_offer_def handleOffer_def answer_offer_def add_local_tracks_def
      split_beta Let_def split: option.splits)

theorem offer_ignored_by_initiator_witness:
  "peerConnection initiator_waiting \<noteq> None \<and> isInitiator initiator_waiting \<and>
   client_on_offer willing_browser initiator_waiting \<lparr>desc_type = SdpOffer, sdp = ''X''\<rparr> =
     (initiator_waiting, [LogMessage ReceivedOffer, LogMessage IgnoringOffer]) \<and>
   peerConnection answerer_waiting = None \<and> localStream answerer_waiting \<noteq> None \<and>
   PcCall (SetRemoteDescription \<lparr>desc_type = SdpOffer, sdp = ''X''\<rparr>) \<in>
     set (snd (client_on_offer willing_browser answerer_waiting
            \<lparr>desc_type = SdpOffer, sdp = ''X''\<rparr>))"
proof -
  have h: "peerConnection initiator_waiting \<noteq> None \<and> isInitiator initiator_waiting"
    by (simp add: initiator_waiting_def)
  have k: "peerConnection answerer_waiting = None \<and> localStream answerer_waiting \<noteq> None"
    by (simp add: answerer_waiting_def)
  from offer_ignored_by_initiator [of initiator_waiting willing_browser
      "\<lparr>desc_type = SdpOffer, sdp = ''X''\<rparr>"]
    offer_ignored_by_initiator [of answerer_waiting willing_browser
      "\<lparr>desc_type = SdpOffer, sdp = ''X''\<rparr>"] h k
  show ?thesis by blast
qed

text \<open>
  Against claim C7 as stated, two pages that are not answering.  A page that never
  started its camera has no connection; the offer makes it create one, and the handler
  dies on the missing stream.  A page that started its camera but has received no
  start-call answers the offer.
\<close>

theorem offer_processed_outside_answering_counterexample:
  "client_on_offer willing_browser (client_init ''c1'') \<lparr>desc_type = SdpOffer, sdp = ''X''\<rparr> =
     ((client_init ''c1'')\<lparr>peerConnection := Some new_peer_connection\<rparr>,
      [LogMessage ReceivedOffer, UncaughtTypeError]) \<and>
   answers_sent (snd (client_run willing_browser (client_init ''c1'')
      [ClickStart [Audio, Video], RecvOffer \<lparr>desc_type = SdpOffer, sdp = ''X''\<rparr>])) =
     [\<lparr>desc_type = SdpAnswer, sdp = ''answer-sdp''\<rparr>]"
  by code_simp

end
